theory Spec2Isabelle
  imports Main "HOL-Library.List_Lexorder" "HOL-Library.Char_ord" "HOL-Library.AList"
begin

section \<open>The news image bot of \<^verbatim>\<open>Main.py\<close>\<close>

text \<open>
  A shallow embedding of \<^verbatim>\<open>Main.py\<close>. Python dictionaries are association lists in
  insertion order (a well-formed dictionary has distinct keys), Python strings are
  \<^typ>\<open>string\<close> ordered lexicographically as \<^verbatim>\<open>str.__gt__\<close> orders them, \<^verbatim>\<open>None\<close> is
  \<^const>\<open>None\<close>, and an exception is a value of \<^verbatim>\<open>py_exn\<close> on the left of a sum.
  Everything outside the process (the history file, the clock, the news provider, the
  chat and image models, the publishing platform) is a field of the record \<^verbatim>\<open>world\<close>.
\<close>

subsection \<open>Constants\<close>

definition MAX_TWEET_LENGTH :: nat where "MAX_TWEET_LENGTH = 160"
definition MAX_PROMPT_LENGTH :: nat where "MAX_PROMPT_LENGTH = 160"
definition NEWS_COUNTRY :: string where "NEWS_COUNTRY = ''us''"
definition NEWS_CATEGORY :: string where "NEWS_CATEGORY = ''technology''"
definition IMAGE_MODEL :: string where "IMAGE_MODEL = ''grok-imagine-image-pro''"
definition CHAT_MODEL :: string where "CHAT_MODEL = ''grok-4-1-fast-reasoning''"
definition HISTORY_RETENTION_DAYS :: nat where "HISTORY_RETENTION_DAYS = 7"

subsection \<open>Values and exceptions\<close>

datatype py_exn =
  OSError | JSONDecodeError | AttributeError | TypeError | IndexError | RequestException

text \<open>The history: url to ISO timestamp, a \<^verbatim>\<open>dict\<close> of \<^verbatim>\<open>str\<close> to \<^verbatim>\<open>str\<close>.\<close>

type_synonym history = "(string \<times> string) list"

text \<open>
  What \<^verbatim>\<open>json.load\<close> gives for the history file: a dictionary of strings; a JSON value
  that is not a dictionary (a list, a number, a string, \<^verbatim>\<open>null\<close>); or a dictionary with a
  value that is not a string.
\<close>

datatype json_doc = Mapping history | NotDict | NonStringValue

text \<open>
  The history file on disk: absent; its path cannot be examined (\<^verbatim>\<open>stat\<close> fails with an
  error other than "no such file", as for a directory without search permission);
  present but \<^verbatim>\<open>open\<close> fails; present and readable but not JSON; present and parsed.
\<close>

datatype store_file = Missing | StatDenied | Unreadable | Malformed | Parsed json_doc

text \<open>Python truthiness of an optional string: \<^verbatim>\<open>None\<close> and \<^verbatim>\<open>''\<close> are falsy.\<close>

definition truthy :: "string option \<Rightarrow> bool" where
  "truthy v = (case v of None \<Rightarrow> False | Some s \<Rightarrow> s \<noteq> [])"

text \<open>\<^verbatim>\<open>a or b\<close>: the first operand when it is truthy, the second otherwise.\<close>

definition py_or :: "string option \<Rightarrow> string option \<Rightarrow> string option" where
  "py_or a b = (if truthy a then a else b)"

subsection \<open>History store\<close>

text \<open>
  \<^verbatim>\<open>HISTORY_FILE.exists()\<close>: \<^verbatim>\<open>False\<close> for an absent file, and the \<^verbatim>\<open>OSError\<close> of
  \<^verbatim>\<open>stat\<close> re-raised when it is not one of the "no such file" kind.
\<close>

definition file_exists :: "store_file \<Rightarrow> py_exn + bool" where
  "file_exists f =
     (case f of
        Missing \<Rightarrow> Inr False
      | StatDenied \<Rightarrow> Inl OSError
      | Unreadable \<Rightarrow> Inr True
      | Malformed \<Rightarrow> Inr True
      | Parsed v \<Rightarrow> Inr True)"

text \<open>\<^verbatim>\<open>with open(HISTORY_FILE, 'r') as f: json.load(f)\<close>, with what it raises.\<close>

definition read_json :: "store_file \<Rightarrow> py_exn + json_doc" where
  "read_json f =
     (case f of
        Missing \<Rightarrow> Inl OSError
      | StatDenied \<Rightarrow> Inl OSError
      | Unreadable \<Rightarrow> Inl OSError
      | Malformed \<Rightarrow> Inl JSONDecodeError
      | Parsed v \<Rightarrow> Inr v)"

text \<open>
  \<^verbatim>\<open>load_posted_articles\<close>: the test \<^verbatim>\<open>HISTORY_FILE.exists()\<close> stands before the
  \<^verbatim>\<open>try\<close>, so what it raises escapes; \<^verbatim>\<open>{}\<close> when the file does not exist; otherwise
  the parsed document, whatever its shape, and \<^verbatim>\<open>{}\<close> when \<^verbatim>\<open>except Exception\<close> catches.
\<close>

definition load_posted_articles :: "store_file \<Rightarrow> py_exn + json_doc" where
  "load_posted_articles f =
     (case file_exists f of
        Inl e \<Rightarrow> Inl e
      | Inr present \<Rightarrow>
          if \<not> present then Inr (Mapping [])
          else (case read_json f of
                  Inr v \<Rightarrow> Inr v
                | Inl e \<Rightarrow> Inr (Mapping [])))"

text \<open>
  \<^verbatim>\<open>save_posted_articles\<close>: the file holds the given history afterwards; when \<^verbatim>\<open>open\<close>
  for writing raises, the exception is logged and the file is as it was.
\<close>

definition save_posted_articles :: "bool \<Rightarrow> history \<Rightarrow> store_file \<Rightarrow> store_file" where
  "save_posted_articles writable history f =
     (if writable then Parsed (Mapping history) else f)"

text \<open>
  \<^verbatim>\<open>clean_old_entries\<close>. The clock is a parameter: \<open>days_ago d\<close> is the string
  \<^verbatim>\<open>(datetime.now() - timedelta(days=d)).isoformat()\<close> at the moment of the call. The
  comprehension keeps, in order, the items whose timestamp is greater than the cutoff as
  a string.
\<close>

definition clean_old_entries :: "(nat \<Rightarrow> string) \<Rightarrow> history \<Rightarrow> history" where
  "clean_old_entries days_ago history =
     (let cutoff = days_ago HISTORY_RETENTION_DAYS
      in filter (\<lambda>(url, timestamp). timestamp > cutoff) history)"

definition is_article_posted :: "string \<Rightarrow> history \<Rightarrow> bool" where
  "is_article_posted url history = (url \<in> set (map fst history))"

text \<open>
  \<^verbatim>\<open>mark_article_posted\<close>: \<^verbatim>\<open>history[url] = datetime.now().isoformat()\<close>; \<open>now\<close> is that
  string. An existing key keeps its place, a new one goes last.
\<close>

definition mark_article_posted :: "string \<Rightarrow> string \<Rightarrow> history \<Rightarrow> history" where
  "mark_article_posted now url history = AList.update url now history"

subsection \<open>Article selector\<close>

text \<open>An item of the provider's list: \<^verbatim>\<open>article.get(key)\<close> is \<^const>\<open>None\<close> for a missing key.\<close>

record article =
  title :: "string option"
  url :: "string option"
  description :: "string option"

record news_params =
  country :: string
  category :: string
  apiKey :: string

text \<open>
  What the request to the news provider comes to: \<^verbatim>\<open>requests.get\<close> or
  \<^verbatim>\<open>raise_for_status\<close> raises a \<^verbatim>\<open>RequestException\<close>; the body is JSON but not an
  object, so that \<^verbatim>\<open>.get\<close> raises \<^verbatim>\<open>AttributeError\<close>; or the body is an object, and
  \<open>Body as\<close> carries \<^verbatim>\<open>response.json().get('articles', [])\<close>.
\<close>

datatype news_outcome = RequestFailed | BodyNotObject | Body "article list"

text \<open>
  The \<^verbatim>\<open>for article in articles\<close> loop of \<^verbatim>\<open>fetch_daily_news\<close>, with the
  \<^verbatim>\<open>return None, None, None\<close> that follows it.
\<close>

fun scan_articles ::
  "article list \<Rightarrow> history \<Rightarrow> string option \<times> string option \<times> string option" where
  "scan_articles [] history = (None, None, None)"
| "scan_articles (a # articles) history =
     (let article_url = url a in
      if \<not> truthy article_url then scan_articles articles history
      else if \<not> is_article_posted (the article_url) history then
        (let article_description = py_or (description a) (title a);
             article_title = title a
         in (article_title, article_url, article_description))
      else scan_articles articles history)"

definition fetch_daily_news ::
  "(news_params \<Rightarrow> news_outcome) \<Rightarrow> string \<Rightarrow> history
     \<Rightarrow> py_exn + (string option \<times> string option \<times> string option)" where
  "fetch_daily_news provider api_key history =
     (let params = \<lparr>country = NEWS_COUNTRY, category = NEWS_CATEGORY, apiKey = api_key\<rparr>
      in case provider params of
           RequestFailed \<Rightarrow> Inr (None, None, None)
         | BodyNotObject \<Rightarrow> Inl AttributeError
         | Body articles \<Rightarrow>
             if articles = [] then Inr (None, None, None)
             else Inr (scan_articles articles history))"

subsection \<open>Content generator\<close>

text \<open>\<^verbatim>\<open>str(n)\<close> for a natural number, as the f-strings render the length bounds.\<close>

fun str_nat :: "nat \<Rightarrow> string" where
  "str_nat n =
     (if n < 10 then [char_of (48 + n)]
      else str_nat (n div 10) @ [char_of (48 + n mod 10)])"

text \<open>
  A chat completion request (model and role-tagged messages), and what it comes to: an
  exception, or a response whose choices carry \<^verbatim>\<open>message.content\<close>.
\<close>

record chat_request =
  chat_model :: string
  messages :: "(string \<times> string) list"

datatype chat_outcome = ChatError | Choices "string option list"

text \<open>\<^verbatim>\<open>response.choices[0].message.content\<close> under \<^verbatim>\<open>except Exception\<close>.\<close>

definition first_choice :: "chat_outcome \<Rightarrow> string option" where
  "first_choice r =
     (case r of
        ChatError \<Rightarrow> None
      | Choices [] \<Rightarrow> None
      | Choices (c # cs) \<Rightarrow> c)"

definition generate_dalle_prompt ::
  "(chat_request \<Rightarrow> chat_outcome) \<Rightarrow> string \<Rightarrow> string option" where
  "generate_dalle_prompt chat news_description =
     (let prompt = ''News: '' @ [CHR 0x27] @ news_description @ [CHR 0x27, CHR 0x0A, CHR 0x0A]
            @ ''Generate hyperrealistic image prompt. Requirements: photographic quality, sharp focus, professional lighting, sharp details. Max ''
            @ str_nat MAX_PROMPT_LENGTH @ '' chars. Output prompt only.''
      in first_choice (chat \<lparr>chat_model = CHAT_MODEL, messages =
           [(''system'', ''Image prompt engineer. Output: dense, photorealistic prompts.''),
            (''user'', prompt)]\<rparr>))"

definition generate_tweet_text ::
  "(chat_request \<Rightarrow> chat_outcome) \<Rightarrow> string \<Rightarrow> string \<Rightarrow> string option" where
  "generate_tweet_text chat news_description news_url =
     (let prompt = ''News: '' @ [CHR 0x27] @ news_description @ [CHR 0x27, CHR 0x0A]
            @ ''URL: '' @ news_url @ [CHR 0x0A, CHR 0x0A]
            @ ''Summarize as tweet. Include URL when valuable (deals, guides, breaking news, resources). Style: casual journalistic. Tense: past/summary. No CTAs. Max ''
            @ str_nat MAX_TWEET_LENGTH @ '' chars including URL.''
      in first_choice (chat \<lparr>chat_model = CHAT_MODEL, messages =
           [(''system'', ''Tweet writer. Include article URLs for deals, guides, resources, breaking news. Concise, standalone, journalistic.''),
            (''user'', prompt)]\<rparr>))"

subsection \<open>Media generator\<close>

record image_request =
  image_model :: string
  image_prompt :: string
  image_count :: nat

text \<open>
  What \<^verbatim>\<open>client.images.generate\<close> comes to: an exception, or a response whose
  \<^verbatim>\<open>data\<close> entries carry a \<^verbatim>\<open>url\<close>.
\<close>

datatype image_outcome = ImageError | ImageData "string option list"

text \<open>
  \<^verbatim>\<open>generate_ai_image\<close>, returning beside its result the requests it made to the image
  collaborator, in order.
\<close>

definition generate_ai_image ::
  "(image_request \<Rightarrow> image_outcome) \<Rightarrow> string \<Rightarrow> string option \<times> image_request list" where
  "generate_ai_image images prompt =
     (if prompt = [] then (None, [])
      else
        (let request = \<lparr>image_model = IMAGE_MODEL, image_prompt = prompt, image_count = 1\<rparr>
         in (case images request of
               ImageError \<Rightarrow> None
             | ImageData [] \<Rightarrow> None
             | ImageData (d # ds) \<Rightarrow> d,
             [request])))"

subsection \<open>Publisher\<close>

text \<open>
  \<^verbatim>\<open>upload_image_to_twitter\<close>: \<open>download\<close> is \<^verbatim>\<open>requests.get\<close> with
  \<^verbatim>\<open>raise_for_status\<close> (the content, or \<^const>\<open>None\<close> when it raises), \<open>upload\<close> is
  \<^verbatim>\<open>api.media_upload\<close> (the \<^verbatim>\<open>media_id_string\<close>, or \<^const>\<open>None\<close> when it raises).
\<close>

definition upload_image_to_twitter ::
  "(string \<Rightarrow> string option) \<Rightarrow> (string \<Rightarrow> string option) \<Rightarrow> string \<Rightarrow> string option" where
  "upload_image_to_twitter download upload image_url =
     (case download image_url of
        None \<Rightarrow> None
      | Some image_data \<Rightarrow> upload image_data)"

text \<open>
  What \<^verbatim>\<open>post_tweet\<close> did. The Python function returns \<^verbatim>\<open>None\<close> on each of the three
  paths; the value here is what it logged: the upload failed, \<^verbatim>\<open>create_tweet\<close> (or
  reading the id) raised, or the tweet was posted with the id.
\<close>

datatype publish_outcome = UploadFailed | TweetFailed | Tweeted string

definition post_tweet ::
  "(string \<Rightarrow> string option) \<Rightarrow> (string \<Rightarrow> string option)
     \<Rightarrow> (string \<Rightarrow> string list \<Rightarrow> string option)
     \<Rightarrow> string \<Rightarrow> string \<Rightarrow> string option \<Rightarrow> string \<Rightarrow> publish_outcome" where
  "post_tweet download upload tweet tweet_text image_url news_title news_url =
     (let media_id = upload_image_to_twitter download upload image_url in
      if \<not> truthy media_id then UploadFailed
      else (case tweet tweet_text [the media_id] of
              None \<Rightarrow> TweetFailed
            | Some tweet_id \<Rightarrow> Tweeted tweet_id))"

subsection \<open>Orchestrator\<close>

text \<open>Everything outside the process that one run of \<^verbatim>\<open>main\<close> reads or calls.\<close>

record world =
  history_file :: store_file
  file_writable :: bool
  iso_days_ago :: "nat \<Rightarrow> string"
  iso_now :: string
  NEWS_API_KEY :: string
  news_api :: "news_params \<Rightarrow> news_outcome"
  chat_api :: "chat_request \<Rightarrow> chat_outcome"
  image_api :: "image_request \<Rightarrow> image_outcome"
  http_get :: "string \<Rightarrow> string option"
  media_upload :: "string \<Rightarrow> string option"
  create_tweet :: "string \<Rightarrow> string list \<Rightarrow> string option"

text \<open>How \<^verbatim>\<open>main\<close> ended: at which \<^verbatim>\<open>return\<close>, in the handler, or at its last line.\<close>

datatype ending = Raised py_exn | NoArticle | NoPrompt | NoImage | NoTweetText | Completed

text \<open>
  One run: how it ended, what \<^verbatim>\<open>post_tweet\<close> did if it was called, the history given
  to \<^verbatim>\<open>save_posted_articles\<close> if it was called, and the history file afterwards.
\<close>

record run =
  ending :: ending
  published :: "publish_outcome option"
  saved :: "history option"
  file_after :: store_file

definition stop :: "world \<Rightarrow> ending \<Rightarrow> run" where
  "stop w e = \<lparr>ending = e, published = None, saved = None, file_after = history_file w\<rparr>"

text \<open>
  \<^verbatim>\<open>clean_old_entries\<close> on what \<^verbatim>\<open>load_posted_articles\<close> returned: a value that is not
  a dictionary has no \<^verbatim>\<open>.items()\<close> (\<^verbatim>\<open>AttributeError\<close>), and a value of the dictionary
  that is not a string cannot be compared with the cutoff (\<^verbatim>\<open>TypeError\<close>).
\<close>

definition clean_loaded :: "(nat \<Rightarrow> string) \<Rightarrow> json_doc \<Rightarrow> py_exn + history" where
  "clean_loaded days_ago doc =
     (case doc of
        NotDict \<Rightarrow> Inl AttributeError
      | NonStringValue \<Rightarrow> Inl TypeError
      | Mapping history \<Rightarrow> Inr (clean_old_entries days_ago history))"

text \<open>
  \<^verbatim>\<open>main\<close>. An exception anywhere ends the run in the handler; each \<^verbatim>\<open>return\<close> ends it
  with nothing published or saved. The value of \<^verbatim>\<open>post_tweet\<close> is recorded and not
  looked at: the two lines after the call run in every case.
\<close>

definition main :: "world \<Rightarrow> run" where
  "main w =
     (case load_posted_articles (history_file w) of
        Inl e \<Rightarrow> stop w (Raised e)
      | Inr loaded \<Rightarrow>
     (case clean_loaded (iso_days_ago w) loaded of
        Inl e \<Rightarrow> stop w (Raised e)
      | Inr history \<Rightarrow>
     (case fetch_daily_news (news_api w) (NEWS_API_KEY w) history of
        Inl e \<Rightarrow> stop w (Raised e)
      | Inr (news_title, news_url, news_description) \<Rightarrow>
     if \<not> truthy news_url \<or> \<not> truthy news_description then stop w NoArticle
     else
     (let image_prompt = generate_dalle_prompt (chat_api w) (the news_description) in
      if \<not> truthy image_prompt then stop w NoPrompt
      else
     (let image_url = fst (generate_ai_image (image_api w) (the image_prompt)) in
      if \<not> truthy image_url then stop w NoImage
      else
     (let tweet_text = generate_tweet_text (chat_api w) (the news_description) (the news_url) in
      if \<not> truthy tweet_text then stop w NoTweetText
      else
     (let posted = post_tweet (http_get w) (media_upload w) (create_tweet w)
                     (the tweet_text) (the image_url) news_title (the news_url);
          history' = mark_article_posted (iso_now w) (the news_url) history
      in \<lparr>ending = Completed, published = Some posted, saved = Some history',
          file_after = save_posted_articles (file_writable w) history' (history_file w)\<rparr>)))))))"

subsection \<open>A sample run\<close>

text \<open>
  A world in which every collaborator answers: the history file holds one recent url,
  the provider lists that url and a new one, and the platform accepts the upload and the
  tweet. The runs evaluated below vary one field of it.
\<close>

definition example_world :: world where
  "example_world =
     \<lparr>history_file = Parsed (Mapping [(''https://a.com'', ''2024-01-09T08:00:00'')]),
      file_writable = True,
      iso_days_ago = (\<lambda>d. ''2024-01-03T12:00:00''),
      iso_now = ''2024-01-10T12:00:01'',
      NEWS_API_KEY = ''key'',
      news_api = (\<lambda>p. Body
        [\<lparr>title = Some ''A'', url = Some ''https://a.com'', description = Some ''a''\<rparr>,
         \<lparr>title = Some ''B'', url = Some ''https://b.com'', description = Some ''d''\<rparr>]),
      chat_api = (\<lambda>r. Choices [Some ''text'']),
      image_api = (\<lambda>r. ImageData [Some ''https://img.example/1.jpg'']),
      http_get = (\<lambda>u. Some ''bytes''),
      media_upload = (\<lambda>b. Some ''123456789''),
      create_tweet = (\<lambda>t m. Some ''42'')\<rparr>"

section \<open>Properties of the history store\<close>

lemma clean_old_entries_filter:
  "clean_old_entries clk h =
     filter (\<lambda>p. clk HISTORY_RETENTION_DAYS < snd p) h"
  by (simp add: clean_old_entries_def case_prod_unfold)

lemma map_of_filter_snd:
  "distinct (map fst h) \<Longrightarrow>
     map_of (filter (\<lambda>p. P (snd p)) h) u = Some t \<longleftrightarrow> map_of h u = Some t \<and> P t"
proof (induction h)
  case Nil
  show ?case by simp
next
  case (Cons p h)
  obtain k v where p: "p = (k, v)" by (cases p)
  from Cons.prems p have fresh: "k \<notin> fst ` set h" and dist: "distinct (map fst h)"
    by simp_all
  have ih: "map_of (filter (\<lambda>p. P (snd p)) h) u = Some t \<longleftrightarrow> map_of h u = Some t \<and> P t"
    using Cons.IH [OF dist] .
  show ?case
  proof (cases "u = k")
    case True
    have none: "map_of h k = None"
      using fresh by (simp add: map_of_eq_None_iff)
    have none': "map_of (filter (\<lambda>p. P (snd p)) h) k = None"
      using fresh by (auto simp: map_of_eq_None_iff)
    show ?thesis using True p none none' by auto
  next
    case False
    then show ?thesis using p ih by simp
  qed
qed

text \<open>
  C4. Pruning is idempotent: with the clock fixed, pruning a pruned history changes
  nothing, whatever the history and whatever cutoff the retention window gives.
\<close>

theorem clean_old_entries_idempotent:
  "clean_old_entries clk (clean_old_entries clk M) = clean_old_entries clk M"
  by (simp add: clean_old_entries_filter)

text \<open>
  C5. The pruned history is a function of the history and the clock alone, and it holds
  exactly the entries of the history whose timestamp is strictly greater than the cutoff
  (now minus the retention window, as an ISO string): the same items, in the same order,
  and for a dictionary (distinct keys) a key maps to a timestamp afterwards if and only if
  it did before and that timestamp is greater than the cutoff.
\<close>

theorem clean_old_entries_exact:
  "set (clean_old_entries clk M) =
     {(u, t). (u, t) \<in> set M \<and> clk HISTORY_RETENTION_DAYS < t}
   \<and> (distinct (map fst M) \<longrightarrow>
        distinct (map fst (clean_old_entries clk M))
        \<and> (\<forall>u t. map_of (clean_old_entries clk M) u = Some t
              \<longleftrightarrow> map_of M u = Some t \<and> clk HISTORY_RETENTION_DAYS < t))"
proof (intro conjI impI allI)
  show "set (clean_old_entries clk M) =
     {(u, t). (u, t) \<in> set M \<and> clk HISTORY_RETENTION_DAYS < t}"
    by (auto simp: clean_old_entries_filter)
next
  assume "distinct (map fst M)"
  then show "distinct (map fst (clean_old_entries clk M))"
    by (simp add: clean_old_entries_filter distinct_map_filter)
next
  fix u t
  assume "distinct (map fst M)"
  then show "map_of (clean_old_entries clk M) u = Some t
     \<longleftrightarrow> map_of M u = Some t \<and> clk HISTORY_RETENTION_DAYS < t"
    unfolding clean_old_entries_filter by (rule map_of_filter_snd)
qed

theorem clean_old_entries_exact_witness:
  "distinct (map fst [(''https://old.com'', ''2024-01-01T09:00:00''),
                      (''https://recent.com'', ''2024-01-11T09:00:00.000001'')])
   \<and> clean_old_entries (\<lambda>d. ''2024-01-04T09:00:00.000001'')
        [(''https://old.com'', ''2024-01-01T09:00:00''),
         (''https://recent.com'', ''2024-01-11T09:00:00.000001'')]
      = [(''https://recent.com'', ''2024-01-11T09:00:00.000001'')]
   \<and> map_of (clean_old_entries (\<lambda>d. ''2024-01-04T09:00:00.000001'')
        [(''https://old.com'', ''2024-01-01T09:00:00''),
         (''https://recent.com'', ''2024-01-11T09:00:00.000001'')]) ''https://old.com'' = None"
  using clean_old_entries_exact
    [of "\<lambda>d. ''2024-01-04T09:00:00.000001''"
        "[(''https://old.com'', ''2024-01-01T09:00:00''),
          (''https://recent.com'', ''2024-01-11T09:00:00.000001'')]"]
  by (simp add: clean_old_entries_def)

text \<open>
  What loading gives on each state of the file: the parsed document as it is, the empty
  dictionary for an absent, unreadable or malformed file, and the escaping \<^verbatim>\<open>OSError\<close>
  when the path cannot be examined.
\<close>

lemma load_posted_articles_cases:
  "load_posted_articles (Parsed d) = Inr d"
  "load_posted_articles Missing = Inr (Mapping [])"
  "load_posted_articles Unreadable = Inr (Mapping [])"
  "load_posted_articles Malformed = Inr (Mapping [])"
  "load_posted_articles StatDenied = Inl OSError"
  by (simp_all add: load_posted_articles_def file_exists_def read_json_def)

text \<open>
  C9. Pruning adds and alters nothing: every item of the pruned history is an item of
  the history, and for a dictionary (distinct keys) the pruned mapping is a submapping:
  each of its keys is a key of the history with the timestamp it had there.
\<close>

theorem clean_old_entries_submap:
  "distinct (map fst M) \<Longrightarrow>
     set (clean_old_entries clk M) \<subseteq> set M
     \<and> map_of (clean_old_entries clk M) \<subseteq>\<^sub>m map_of M
     \<and> dom (map_of (clean_old_entries clk M)) \<subseteq> dom (map_of M)"
proof -
  assume d: "distinct (map fst M)"
  have sub: "map_of (clean_old_entries clk M) \<subseteq>\<^sub>m map_of M"
    unfolding map_le_def clean_old_entries_filter
    using map_of_filter_snd [OF d, of "\<lambda>t. clk HISTORY_RETENTION_DAYS < t"]
    by (auto simp: dom_def)
  have "set (clean_old_entries clk M) \<subseteq> set M"
    by (auto simp: clean_old_entries_filter)
  with sub show ?thesis
    by (simp add: map_le_implies_dom_le)
qed

theorem clean_old_entries_submap_witness:
  "distinct (map fst [(''https://a.com'', ''2024-01-01T00:00:00''),
                      (''https://b.com'', ''2024-03-01T00:00:00'')])
   \<and> map_of (clean_old_entries (\<lambda>d. ''2024-02-01T00:00:00'')
        [(''https://a.com'', ''2024-01-01T00:00:00''),
         (''https://b.com'', ''2024-03-01T00:00:00'')]) ''https://b.com''
      = Some ''2024-03-01T00:00:00''
   \<and> map_of (clean_old_entries (\<lambda>d. ''2024-02-01T00:00:00'')
        [(''https://a.com'', ''2024-01-01T00:00:00''),
         (''https://b.com'', ''2024-03-01T00:00:00'')]) \<subseteq>\<^sub>m
      map_of [(''https://a.com'', ''2024-01-01T00:00:00''),
              (''https://b.com'', ''2024-03-01T00:00:00'')]"
  using clean_old_entries_submap
    [of "[(''https://a.com'', ''2024-01-01T00:00:00''),
          (''https://b.com'', ''2024-03-01T00:00:00'')]" "\<lambda>d. ''2024-02-01T00:00:00''"]
  by (simp add: clean_old_entries_def)

section \<open>Properties of the selector and the media generator\<close>

lemma truthy_iff: "truthy v \<longleftrightarrow> (\<exists>s. v = Some s \<and> s \<noteq> [])"
  by (cases v) (simp_all add: truthy_def)

lemma scan_articles_Cons:
  "scan_articles (a # arts) H =
     (case url a of
        None \<Rightarrow> scan_articles arts H
      | Some v \<Rightarrow>
          if v = [] \<or> v \<in> fst ` set H then scan_articles arts H
          else (title a, Some v, py_or (description a) (title a)))"
  by (simp add: Let_def truthy_def is_article_posted_def split: option.splits)

lemma scan_articles_skip:
  "\<forall>b\<in>set pre. \<forall>v. url b = Some v \<longrightarrow> v = [] \<or> v \<in> fst ` set H \<Longrightarrow>
     scan_articles (pre @ rest) H = scan_articles rest H"
proof (induction pre)
  case Nil
  show ?case by simp
next
  case (Cons b pre)
  then have rest: "scan_articles (pre @ rest) H = scan_articles rest H"
    by simp
  from Cons.prems have b: "\<forall>v. url b = Some v \<longrightarrow> v = [] \<or> v \<in> fst ` set H"
    by simp
  have "scan_articles (b # (pre @ rest)) H = scan_articles (pre @ rest) H"
    using b by (simp only: scan_articles_Cons split: option.splits) auto
  with rest show ?case by simp
qed

lemma scan_articles_hit:
  "url a = Some u \<Longrightarrow> u \<noteq> [] \<Longrightarrow> u \<notin> fst ` set H \<Longrightarrow>
     scan_articles (a # post) H = (title a, Some u, py_or (description a) (title a))"
  by (simp only: scan_articles_Cons) simp

lemma scan_articles_none_iff:
  "scan_articles arts H = (None, None, None)
     \<longleftrightarrow> (\<forall>a\<in>set arts. \<forall>u. url a = Some u \<longrightarrow> u = [] \<or> u \<in> fst ` set H)"
proof (induction arts)
  case Nil
  show ?case by simp
next
  case (Cons a arts)
  show ?case
  proof (cases "url a")
    case None
    then show ?thesis using Cons.IH by (simp only: scan_articles_Cons) simp
  next
    case (Some v)
    show ?thesis
    proof (cases "v = [] \<or> v \<in> fst ` set H")
      case True
      then show ?thesis using Some Cons.IH by (simp only: scan_articles_Cons) auto
    next
      case False
      then show ?thesis using Some by (simp only: scan_articles_Cons) auto
    qed
  qed
qed

lemma scan_articles_found:
  "scan_articles arts H = (t, Some i, d) \<Longrightarrow>
     \<exists>pre a post. arts = pre @ a # post \<and> url a = Some i \<and> i \<noteq> [] \<and> i \<notin> fst ` set H
        \<and> t = title a \<and> d = py_or (description a) (title a)
        \<and> (\<forall>b\<in>set pre. \<forall>v. url b = Some v \<longrightarrow> v = [] \<or> v \<in> fst ` set H)"
proof (induction arts)
  case Nil
  then show ?case by simp
next
  case (Cons a arts)
  show ?case
  proof (cases "\<exists>v. url a = Some v \<and> v \<noteq> [] \<and> v \<notin> fst ` set H")
    case True
    then obtain v where v: "url a = Some v" "v \<noteq> []" "v \<notin> fst ` set H"
      by blast
    from Cons.prems scan_articles_hit [OF v, of arts]
    have "t = title a" "i = v" "d = py_or (description a) (title a)"
      by simp_all
    with v have "a # arts = [] @ a # arts \<and> url a = Some i \<and> i \<noteq> [] \<and> i \<notin> fst ` set H
        \<and> t = title a \<and> d = py_or (description a) (title a)
        \<and> (\<forall>b\<in>set []. \<forall>v. url b = Some v \<longrightarrow> v = [] \<or> v \<in> fst ` set H)"
      by simp
    then show ?thesis by blast
  next
    case False
    then have skip: "\<forall>v. url a = Some v \<longrightarrow> v = [] \<or> v \<in> fst ` set H"
      by blast
    then have "\<forall>b\<in>set [a]. \<forall>v. url b = Some v \<longrightarrow> v = [] \<or> v \<in> fst ` set H"
      by simp
    from scan_articles_skip [OF this, of arts] Cons.prems
    have "scan_articles arts H = (t, Some i, d)"
      by simp
    from Cons.IH [OF this] obtain pre b post where
      p: "arts = pre @ b # post" "url b = Some i" "i \<noteq> []" "i \<notin> fst ` set H"
         "t = title b" "d = py_or (description b) (title b)"
         "\<forall>c\<in>set pre. \<forall>v. url c = Some v \<longrightarrow> v = [] \<or> v \<in> fst ` set H"
      by blast
    from p skip have "a # arts = (a # pre) @ b # post \<and> url b = Some i \<and> i \<noteq> [] \<and> i \<notin> fst ` set H
        \<and> t = title b \<and> d = py_or (description b) (title b)
        \<and> (\<forall>c\<in>set (a # pre). \<forall>v. url c = Some v \<longrightarrow> v = [] \<or> v \<in> fst ` set H)"
      by simp
    then show ?thesis by blast
  qed
qed

lemma scan_articles_no_url:
  "scan_articles arts H = (t, None, d) \<Longrightarrow> t = None \<and> d = None"
proof (induction arts)
  case Nil
  then show ?case by simp
next
  case (Cons a arts)
  then show ?case
    by (simp only: scan_articles_Cons split: option.splits if_splits) auto
qed

lemma fetch_daily_news_Body:
  "provider \<lparr>country = NEWS_COUNTRY, category = NEWS_CATEGORY, apiKey = k\<rparr> = Body arts \<Longrightarrow>
     fetch_daily_news provider k H = Inr (scan_articles arts H)"
  by (cases arts) (simp_all add: fetch_daily_news_def)

text \<open>
  C3. When the provider returns the list \<open>arts\<close>, the selector scans it in order: if an
  item has a non-empty url that is not a key of the history and every item before it has
  a missing url, an empty url or a url that is a key of the history, that item is returned
  (its title, its url, and its description or else its title). Conversely whatever is
  returned with a url is such a first item, so its url is never a key of the history.
\<close>

theorem fetch_daily_news_first_unposted:
  assumes body: "provider \<lparr>country = NEWS_COUNTRY, category = NEWS_CATEGORY, apiKey = k\<rparr> = Body arts"
  shows "(\<forall>pre a post u.
            arts = pre @ a # post \<and> url a = Some u \<and> u \<noteq> [] \<and> u \<notin> fst ` set H
            \<and> (\<forall>b\<in>set pre. \<forall>v. url b = Some v \<longrightarrow> v = [] \<or> v \<in> fst ` set H)
          \<longrightarrow> fetch_daily_news provider k H
                = Inr (title a, Some u, py_or (description a) (title a)))
       \<and> (\<forall>t u d. fetch_daily_news provider k H = Inr (t, Some u, d) \<longrightarrow>
            u \<noteq> [] \<and> u \<notin> fst ` set H
            \<and> (\<exists>pre a post. arts = pre @ a # post \<and> url a = Some u \<and> t = title a
                 \<and> d = py_or (description a) (title a)
                 \<and> (\<forall>b\<in>set pre. \<forall>v. url b = Some v \<longrightarrow> v = [] \<or> v \<in> fst ` set H)))
       \<and> (\<forall>t d. fetch_daily_news provider k H = Inr (t, None, d) \<longrightarrow> t = None \<and> d = None)"
proof -
  have fb: "fetch_daily_news provider k H = Inr (scan_articles arts H)"
    using body by (rule fetch_daily_news_Body [of provider k arts H])
  show ?thesis
  proof (intro conjI allI impI)
  fix pre a post u
  assume h: "arts = pre @ a # post \<and> url a = Some u \<and> u \<noteq> [] \<and> u \<notin> fst ` set H
            \<and> (\<forall>b\<in>set pre. \<forall>v. url b = Some v \<longrightarrow> v = [] \<or> v \<in> fst ` set H)"
  then have "scan_articles arts H = scan_articles (a # post) H"
    using scan_articles_skip [of pre H "a # post"] by simp
  also have "\<dots> = (title a, Some u, py_or (description a) (title a))"
    using h by (intro scan_articles_hit) simp_all
  finally show "fetch_daily_news provider k H
                = Inr (title a, Some u, py_or (description a) (title a))"
    by (simp add: fb)
next
  fix t u d
  assume "fetch_daily_news provider k H = Inr (t, Some u, d)"
  then have s: "scan_articles arts H = (t, Some u, d)"
    by (simp add: fb)
  from scan_articles_found [OF s] show "u \<noteq> []" and "u \<notin> fst ` set H"
    and "\<exists>pre a post. arts = pre @ a # post \<and> url a = Some u \<and> t = title a
                 \<and> d = py_or (description a) (title a)
                 \<and> (\<forall>b\<in>set pre. \<forall>v. url b = Some v \<longrightarrow> v = [] \<or> v \<in> fst ` set H)"
    by blast+
next
  fix t d
  assume "fetch_daily_news provider k H = Inr (t, None, d)"
  then have s: "scan_articles arts H = (t, None, d)"
    by (simp add: fb)
  from scan_articles_no_url [OF s] show "t = None" and "d = None"
    by simp_all
  qed
qed

theorem fetch_daily_news_first_unposted_witness:
  "fetch_daily_news
     (\<lambda>p. Body [\<lparr>title = None, url = Some ''https://a.com'', description = None\<rparr>,
                \<lparr>title = Some ''B'', url = Some ''https://b.com'', description = Some ''d''\<rparr>])
     ''key'' [(''https://a.com'', ''2024-01-01T00:00:00'')]
   = Inr (Some ''B'', Some ''https://b.com'', Some ''d'')"
proof -
  let ?a = "\<lparr>title = None, url = Some ''https://a.com'', description = None\<rparr>"
  let ?b = "\<lparr>title = Some ''B'', url = Some ''https://b.com'', description = Some ''d''\<rparr>"
  have body: "(\<lambda>p. Body [?a, ?b])
      \<lparr>country = NEWS_COUNTRY, category = NEWS_CATEGORY, apiKey = ''key''\<rparr> = Body [?a, ?b]"
    by simp
  from fetch_daily_news_first_unposted
         [of "\<lambda>p. Body [?a, ?b]" "''key''" "[?a, ?b]"
             "[(''https://a.com'', ''2024-01-01T00:00:00'')]",
          OF body, THEN conjunct1, rule_format, of "[?a]" ?b "[]" "''https://b.com''"]
  show ?thesis
    by (simp add: py_or_def truthy_def)
qed

text \<open>
  C7. The selector returns \<open>(None, None, None)\<close>, without raising, in exactly three
  situations: the request to the provider fails, the article list is empty, or every
  item of the list that has a non-empty url has a url that is a key of the history.
\<close>

theorem fetch_daily_news_absent_iff:
  "fetch_daily_news provider k H = Inr (None, None, None) \<longleftrightarrow>
     provider \<lparr>country = NEWS_COUNTRY, category = NEWS_CATEGORY, apiKey = k\<rparr> = RequestFailed
     \<or> (\<exists>arts. provider \<lparr>country = NEWS_COUNTRY, category = NEWS_CATEGORY, apiKey = k\<rparr> = Body arts
          \<and> (arts = []
              \<or> (\<forall>a\<in>set arts. \<forall>u. url a = Some u \<longrightarrow> u = [] \<or> u \<in> fst ` set H)))"
proof (cases "provider \<lparr>country = NEWS_COUNTRY, category = NEWS_CATEGORY, apiKey = k\<rparr>")
  case RequestFailed
  then show ?thesis by (simp add: fetch_daily_news_def)
next
  case BodyNotObject
  then show ?thesis by (simp add: fetch_daily_news_def)
next
  case (Body arts)
  have "fetch_daily_news provider k H = Inr (scan_articles arts H)"
    using Body by (rule fetch_daily_news_Body [of provider k arts H])
  then show ?thesis
    using Body scan_articles_none_iff [of arts H] by auto
qed

theorem fetch_daily_news_absent_iff_witness:
  "fetch_daily_news
     (\<lambda>p. Body [\<lparr>title = Some ''A'', url = Some ''https://a.com'', description = None\<rparr>,
                \<lparr>title = Some ''N'', url = None, description = Some ''n''\<rparr>])
     ''key'' [(''https://a.com'', ''2024-01-01T00:00:00'')]
   = Inr (None, None, None)
   \<and> fetch_daily_news
     (\<lambda>p. Body [\<lparr>title = Some ''B'', url = Some ''https://b.com'', description = None\<rparr>])
     ''key'' [(''https://a.com'', ''2024-01-01T00:00:00'')]
   \<noteq> Inr (None, None, None)"
  using fetch_daily_news_absent_iff
     [of "\<lambda>p. Body [\<lparr>title = Some ''A'', url = Some ''https://a.com'', description = None\<rparr>,
                \<lparr>title = Some ''N'', url = None, description = Some ''n''\<rparr>]"
         "''key''" "[(''https://a.com'', ''2024-01-01T00:00:00'')]"]
    fetch_daily_news_absent_iff
     [of "\<lambda>p. Body [\<lparr>title = Some ''B'', url = Some ''https://b.com'', description = None\<rparr>]"
         "''key''" "[(''https://a.com'', ''2024-01-01T00:00:00'')]"]
  by simp

text \<open>
  C8. For the empty prompt the media generator returns \<open>None\<close> and makes no request.
  For a non-empty prompt it makes exactly one request, for one image with that prompt,
  and returns the location of the first image of the response, or \<open>None\<close> when the
  collaborator raises or the response holds no image.
\<close>

theorem generate_ai_image_contract:
  "generate_ai_image images [] = (None, [])
   \<and> (p \<noteq> [] \<longrightarrow>
        snd (generate_ai_image images p)
          = [\<lparr>image_model = IMAGE_MODEL, image_prompt = p, image_count = 1\<rparr>]
        \<and> (images \<lparr>image_model = IMAGE_MODEL, image_prompt = p, image_count = 1\<rparr> = ImageError
              \<longrightarrow> fst (generate_ai_image images p) = None)
        \<and> (images \<lparr>image_model = IMAGE_MODEL, image_prompt = p, image_count = 1\<rparr> = ImageData []
              \<longrightarrow> fst (generate_ai_image images p) = None)
        \<and> (\<forall>loc more.
              images \<lparr>image_model = IMAGE_MODEL, image_prompt = p, image_count = 1\<rparr>
                = ImageData (loc # more)
              \<longrightarrow> fst (generate_ai_image images p) = loc))"
  by (simp add: generate_ai_image_def Let_def)

theorem generate_ai_image_contract_witness:
  "''Image prompt'' \<noteq> []
   \<and> generate_ai_image (\<lambda>r. ImageData [Some ''https://generated-image.com'']) ''Image prompt''
     = (Some ''https://generated-image.com'',
        [\<lparr>image_model = ''grok-imagine-image-pro'', image_prompt = ''Image prompt'',
          image_count = 1\<rparr>])
   \<and> generate_ai_image (\<lambda>r. ImageError) ''Image prompt''
     = (None,
        [\<lparr>image_model = ''grok-imagine-image-pro'', image_prompt = ''Image prompt'',
          image_count = 1\<rparr>])"
  using generate_ai_image_contract
          [of "\<lambda>r. ImageData [Some ''https://generated-image.com'']" "''Image prompt''"]
        generate_ai_image_contract [of "\<lambda>r. ImageError" "''Image prompt''"]
  by (simp add: IMAGE_MODEL_def prod_eq_iff)

section \<open>Properties of the orchestrator\<close>

lemmas run_defs =
  main_def stop_def load_posted_articles_def file_exists_def read_json_def
  clean_loaded_def clean_old_entries_def fetch_daily_news_def scan_articles_Cons
  is_article_posted_def truthy_def py_or_def generate_dalle_prompt_def
  generate_tweet_text_def first_choice_def generate_ai_image_def post_tweet_def
  upload_image_to_twitter_def mark_article_posted_def save_posted_articles_def Let_def

lemma main_abort_unchanged:
  "ending (main w) \<noteq> Completed \<Longrightarrow>
     saved (main w) = None \<and> published (main w) = None \<and> file_after (main w) = history_file w"
  by (auto simp: main_def stop_def Let_def split: sum.splits prod.splits if_splits)

lemma main_completed:
  "ending (main w) = Completed \<Longrightarrow> saved (main w) \<noteq> None \<and> published (main w) \<noteq> None"
  by (auto simp: main_def stop_def Let_def split: sum.splits prod.splits if_splits)

text \<open>
  The runs that end in the handler of \<^verbatim>\<open>main\<close>: the path of the history file cannot be
  examined, the history file parses to something that is not a dictionary of strings, or
  the provider's body is not an object.
\<close>

lemma main_raised_cases:
  "ending (main w) = Raised e \<Longrightarrow>
     history_file w = StatDenied \<and> e = OSError
     \<or> history_file w = Parsed NotDict \<and> e = AttributeError
     \<or> history_file w = Parsed NonStringValue \<and> e = TypeError
     \<or> e = AttributeError
        \<and> news_api w \<lparr>country = NEWS_COUNTRY, category = NEWS_CATEGORY,
                        apiKey = NEWS_API_KEY w\<rparr> = BodyNotObject"
  by (cases "history_file w")
     (auto simp: main_def stop_def Let_def load_posted_articles_def file_exists_def
        read_json_def clean_loaded_def fetch_daily_news_def
        split: sum.splits prod.splits if_splits json_doc.splits news_outcome.splits)

text \<open>
  A history file that parses to something other than a dictionary of strings ends every
  run in the handler, with nothing published and nothing saved.
\<close>

lemma main_raises_on_non_mapping:
  "history_file w = Parsed NotDict \<Longrightarrow>
     ending (main w) = Raised AttributeError \<and> published (main w) = None
     \<and> saved (main w) = None \<and> file_after (main w) = history_file w"
  "history_file w = Parsed NonStringValue \<Longrightarrow>
     ending (main w) = Raised TypeError \<and> published (main w) = None
     \<and> saved (main w) = None \<and> file_after (main w) = history_file w"
  "history_file w = StatDenied \<Longrightarrow>
     ending (main w) = Raised OSError \<and> published (main w) = None
     \<and> saved (main w) = None \<and> file_after (main w) = history_file w"
  by (simp_all add: main_def stop_def load_posted_articles_def file_exists_def
        read_json_def clean_loaded_def)

text \<open>
  C6. Loading the history never fails the run: it gives the persisted mapping when the
  file exists and parses, and the empty mapping when the file is absent or cannot be
  parsed. The code does not keep this for a file that parses to JSON that is not a
  dictionary (a list, say): \<^verbatim>\<open>load_posted_articles\<close> returns that value as it is, not a
  mapping, \<^verbatim>\<open>clean_old_entries\<close> raises on it, and the run ends in the handler with nothing
  published. The same run with a file that is not JSON at all proceeds with the empty
  history and completes.
\<close>

theorem main_fails_on_parsed_non_dict:
  "load_posted_articles (Parsed NotDict) = Inr NotDict
   \<and> ending (main (example_world\<lparr>history_file := Parsed NotDict\<rparr>)) = Raised AttributeError
   \<and> published (main (example_world\<lparr>history_file := Parsed NotDict\<rparr>)) = None
   \<and> ending (main (example_world\<lparr>history_file := Malformed\<rparr>)) = Completed
   \<and> published (main (example_world\<lparr>history_file := Malformed\<rparr>)) = Some (Tweeted ''42'')"
  by (simp add: example_world_def run_defs)

theorem main_fails_on_parsed_non_dict_witness:
  "(\<forall>h. load_posted_articles (Parsed NotDict) \<noteq> Inr (Mapping h))
   \<and> ending (main (example_world\<lparr>history_file := Parsed NotDict\<rparr>)) \<noteq> Completed
   \<and> published (main (example_world\<lparr>history_file := Parsed NotDict\<rparr>)) = None"
  using main_fails_on_parsed_non_dict by simp

lemma main_after_selection:
  assumes "load_posted_articles (history_file w) = Inr doc"
      and "clean_loaded (iso_days_ago w) doc = Inr H"
      and "fetch_daily_news (news_api w) (NEWS_API_KEY w) H = Inr (t, Some u, Some d)"
      and "u \<noteq> []" and "d \<noteq> []"
  shows "main w =
     (let image_prompt = generate_dalle_prompt (chat_api w) d in
      if \<not> truthy image_prompt then stop w NoPrompt
      else
     (let image_url = fst (generate_ai_image (image_api w) (the image_prompt)) in
      if \<not> truthy image_url then stop w NoImage
      else
     (let tweet_text = generate_tweet_text (chat_api w) d u in
      if \<not> truthy tweet_text then stop w NoTweetText
      else
        \<lparr>ending = Completed,
         published = Some (post_tweet (http_get w) (media_upload w) (create_tweet w)
                             (the tweet_text) (the image_url) t u),
         saved = Some (mark_article_posted (iso_now w) u H),
         file_after = save_posted_articles (file_writable w)
                        (mark_article_posted (iso_now w) u H) (history_file w)\<rparr>)))"
  using assms by (simp add: main_def truthy_def Let_def)

lemma main_stage_without_result:
  assumes "load_posted_articles (history_file w) = Inr doc"
      and "clean_loaded (iso_days_ago w) doc = Inr H"
      and "fetch_daily_news (news_api w) (NEWS_API_KEY w) H = Inr (t, Some u, Some d)"
      and "u \<noteq> []" and "d \<noteq> []"
      and "\<not> truthy (generate_dalle_prompt (chat_api w) d)
           \<or> \<not> truthy (fst (generate_ai_image (image_api w)
                               (the (generate_dalle_prompt (chat_api w) d))))
           \<or> \<not> truthy (generate_tweet_text (chat_api w) d u)"
  shows "saved (main w) = None \<and> published (main w) = None
         \<and> file_after (main w) = history_file w"
proof -
  have "ending (main w) \<noteq> Completed"
    using assms(6) unfolding main_after_selection [OF assms(1-5)]
    by (auto simp: Let_def stop_def)
  then show ?thesis by (rule main_abort_unchanged)
qed

lemma main_commits_whatever_post_tweet_did:
  assumes "load_posted_articles (history_file w) = Inr doc"
      and "clean_loaded (iso_days_ago w) doc = Inr H"
      and "fetch_daily_news (news_api w) (NEWS_API_KEY w) H = Inr (t, Some u, Some d)"
      and "u \<noteq> []" and "d \<noteq> []"
      and "generate_dalle_prompt (chat_api w) d = Some p" and "p \<noteq> []"
      and "fst (generate_ai_image (image_api w) p) = Some img" and "img \<noteq> []"
      and "generate_tweet_text (chat_api w) d u = Some txt" and "txt \<noteq> []"
  shows "published (main w)
           = Some (post_tweet (http_get w) (media_upload w) (create_tweet w) txt img t u)
         \<and> saved (main w) = Some (mark_article_posted (iso_now w) u H)
         \<and> file_after (main w) = save_posted_articles (file_writable w)
                        (mark_article_posted (iso_now w) u H) (history_file w)"
  unfolding main_after_selection [OF assms(1-5)]
  using assms(6-11) by (simp add: truthy_def Let_def)

text \<open>
  C1. The history is committed if and only if the publish stage obtained a post
  identifier. The code does not keep this: \<^verbatim>\<open>main\<close> does not look at what \<^verbatim>\<open>post_tweet\<close>
  did. In the run below the image download fails, \<^verbatim>\<open>post_tweet\<close> gives up before creating
  a tweet, and the selected url is marked and saved all the same.
\<close>

theorem main_commits_after_failed_upload:
  "published (main (example_world\<lparr>http_get := (\<lambda>u. None)\<rparr>)) = Some UploadFailed
   \<and> saved (main (example_world\<lparr>http_get := (\<lambda>u. None)\<rparr>))
       = Some [(''https://a.com'', ''2024-01-09T08:00:00''),
               (''https://b.com'', ''2024-01-10T12:00:01'')]
   \<and> file_after (main (example_world\<lparr>http_get := (\<lambda>u. None)\<rparr>))
       = Parsed (Mapping [(''https://a.com'', ''2024-01-09T08:00:00''),
                          (''https://b.com'', ''2024-01-10T12:00:01'')])"
  by (simp add: example_world_def run_defs)

theorem main_commits_after_failed_upload_witness:
  "saved (main (example_world\<lparr>http_get := (\<lambda>u. None)\<rparr>)) \<noteq> None
   \<and> (\<forall>i. published (main (example_world\<lparr>http_get := (\<lambda>u. None)\<rparr>)) \<noteq> Some (Tweeted i))
   \<and> file_after (main (example_world\<lparr>http_get := (\<lambda>u. None)\<rparr>))
       \<noteq> history_file (example_world\<lparr>http_get := (\<lambda>u. None)\<rparr>)"
  using main_commits_after_failed_upload by (simp add: example_world_def)

text \<open>
  C2. A stage after selection that yields no result leaves the history file as it was.
  For the prompt, the image and the tweet text this holds (\<open>main_stage_without_result\<close>);
  for the publish stage the code does not keep it. In the run below \<^verbatim>\<open>create_tweet\<close>
  raises, and the history file afterwards holds the selected url, which it did not before.
\<close>

theorem main_saves_after_failed_tweet:
  "history_file (example_world\<lparr>create_tweet := (\<lambda>t m. None)\<rparr>)
     = Parsed (Mapping [(''https://a.com'', ''2024-01-09T08:00:00'')])
   \<and> published (main (example_world\<lparr>create_tweet := (\<lambda>t m. None)\<rparr>)) = Some TweetFailed
   \<and> file_after (main (example_world\<lparr>create_tweet := (\<lambda>t m. None)\<rparr>))
       = Parsed (Mapping [(''https://a.com'', ''2024-01-09T08:00:00''),
                          (''https://b.com'', ''2024-01-10T12:00:01'')])
   \<and> file_after (main (example_world\<lparr>create_tweet := (\<lambda>t m. None)\<rparr>))
       \<noteq> history_file (example_world\<lparr>create_tweet := (\<lambda>t m. None)\<rparr>)"
  by (simp add: example_world_def run_defs)

theorem main_saves_after_failed_tweet_witness:
  "\<exists>before after.
      history_file (example_world\<lparr>create_tweet := (\<lambda>t m. None)\<rparr>) = Parsed (Mapping before)
      \<and> file_after (main (example_world\<lparr>create_tweet := (\<lambda>t m. None)\<rparr>))
          = Parsed (Mapping after)
      \<and> \<not> is_article_posted ''https://b.com'' before
      \<and> is_article_posted ''https://b.com'' after"
  using main_saves_after_failed_tweet by (simp add: is_article_posted_def)

text \<open>
  C10. When the first item of the provider's list with a non-empty url that is not in the
  pruned history has neither a description nor a title (each missing or empty), the
  selector returns that item, its summary being its falsy title, whatever usable items
  follow it; \<^verbatim>\<open>main\<close> then ends at "No unposted articles found" with nothing published,
  nothing saved and the history file as it was.
\<close>

theorem main_aborts_on_article_without_text:
  assumes "load_posted_articles (history_file w) = Inr (Mapping loaded)"
      and "H = clean_old_entries (iso_days_ago w) loaded"
      and "news_api w \<lparr>country = NEWS_COUNTRY, category = NEWS_CATEGORY,
                        apiKey = NEWS_API_KEY w\<rparr> = Body (pre @ a # post)"
      and "\<forall>b\<in>set pre. \<forall>v. url b = Some v \<longrightarrow> v = [] \<or> v \<in> fst ` set H"
      and "url a = Some u" and "u \<noteq> []" and "u \<notin> fst ` set H"
      and "\<not> truthy (description a)" and "\<not> truthy (title a)"
  shows "fetch_daily_news (news_api w) (NEWS_API_KEY w) H = Inr (title a, Some u, title a)
         \<and> ending (main w) = NoArticle
         \<and> saved (main w) = None \<and> published (main w) = None
         \<and> file_after (main w) = history_file w"
proof -
  have "scan_articles (pre @ a # post) H = scan_articles (a # post) H"
    using assms(4) by (rule scan_articles_skip)
  also have "\<dots> = (title a, Some u, py_or (description a) (title a))"
    using assms(5-7) by (rule scan_articles_hit)
  also have "py_or (description a) (title a) = title a"
    using assms(8) by (simp add: py_or_def)
  finally have scan: "scan_articles (pre @ a # post) H = (title a, Some u, title a)" .
  have fetch: "fetch_daily_news (news_api w) (NEWS_API_KEY w) H
                 = Inr (title a, Some u, title a)"
    using assms(3) scan
      fetch_daily_news_Body [of "news_api w" "NEWS_API_KEY w" "pre @ a # post" H]
    by simp
  have cl: "clean_loaded (iso_days_ago w) (Mapping loaded) = Inr H"
    using assms(2) by (simp add: clean_loaded_def)
  have e: "ending (main w) = NoArticle"
    using assms(1) cl fetch assms(9) by (simp add: main_def stop_def)
  then have "ending (main w) \<noteq> Completed" by simp
  from main_abort_unchanged [OF this] e fetch show ?thesis by simp
qed

theorem main_aborts_on_article_without_text_witness:
  "ending (main (example_world\<lparr>news_api := (\<lambda>p. Body
        [\<lparr>title = Some ''A'', url = Some ''https://a.com'', description = Some ''a''\<rparr>,
         \<lparr>title = None, url = Some ''https://c.com'', description = Some ''''\<rparr>,
         \<lparr>title = Some ''B'', url = Some ''https://b.com'', description = Some ''d''\<rparr>])\<rparr>))
     = NoArticle
   \<and> file_after (main (example_world\<lparr>news_api := (\<lambda>p. Body
        [\<lparr>title = Some ''A'', url = Some ''https://a.com'', description = Some ''a''\<rparr>,
         \<lparr>title = None, url = Some ''https://c.com'', description = Some ''''\<rparr>,
         \<lparr>title = Some ''B'', url = Some ''https://b.com'', description = Some ''d''\<rparr>])\<rparr>))
     = Parsed (Mapping [(''https://a.com'', ''2024-01-09T08:00:00'')])"
proof -
  let ?a = "\<lparr>title = Some ''A'', url = Some ''https://a.com'', description = Some ''a''\<rparr>"
  let ?c = "\<lparr>title = None, url = Some ''https://c.com'', description = Some ''''\<rparr>"
  let ?b = "\<lparr>title = Some ''B'', url = Some ''https://b.com'', description = Some ''d''\<rparr>"
  let ?w = "example_world\<lparr>news_api := (\<lambda>p. Body [?a, ?c, ?b])\<rparr>"
  let ?H = "[(''https://a.com'', ''2024-01-09T08:00:00'')]"
  have 1: "load_posted_articles (history_file ?w) = Inr (Mapping ?H)"
    by (simp add: example_world_def load_posted_articles_def file_exists_def read_json_def)
  have 2: "?H = clean_old_entries (iso_days_ago ?w) ?H"
    by (simp add: example_world_def clean_old_entries_def)
  have 3: "news_api ?w \<lparr>country = NEWS_COUNTRY, category = NEWS_CATEGORY,
                        apiKey = NEWS_API_KEY ?w\<rparr> = Body ([?a] @ ?c # [?b])"
    by (simp add: example_world_def)
  have 4: "\<forall>b\<in>set [?a]. \<forall>v. url b = Some v \<longrightarrow> v = [] \<or> v \<in> fst ` set ?H"
    by simp
  have 5: "url ?c = Some ''https://c.com''" "''https://c.com'' \<noteq> []"
    "''https://c.com'' \<notin> fst ` set ?H" "\<not> truthy (description ?c)" "\<not> truthy (title ?c)"
    by (simp_all add: truthy_def)
  from main_aborts_on_article_without_text [OF 1 2 3 4 5]
  show ?thesis by (simp add: example_world_def)
qed

end
